theory Spec2Isabelle
  imports Main
begin

section \<open>Python values, errors and strings\<close>

text \<open>
  The exceptions of \<^verbatim>\<open>csv_parser.py\<close> and \<^verbatim>\<open>resource_uploader.py\<close> become values:
  a function that can raise returns \<open>error + 'a\<close>, with \<open>Inl\<close> for the raised exception.
  \<open>ClientError\<close> is the exception of \<^verbatim>\<open>aiohttp\<close> for a request that fails; the last four are
  the ones of the operating system for a directory or a file that cannot be made.
  The parser raises the plain Python \<^verbatim>\<open>Exception\<close> with a message for an unknown
  category, for invalid columns and for missing required fields; the message is what tells
  them apart, so it is kept as the source builds it.
\<close>

datatype error =
    Exception string
  | FileNotFoundError string
  | KeyError string
  | AttributeError string
  | TypeError string
  | ResourceUploadError string
  | ClientError string
  | FileExistsError string
  | NotADirectoryError string
  | IsADirectoryError string
  | PermissionError string

text \<open>
  A row of \<^verbatim>\<open>csv.DictReader\<close> maps each header name to the cell of that column. A row
  shorter than the header gets Python's \<^verbatim>\<open>None\<close> for the columns it lacks, so a cell
  is a \<open>string option\<close> (\<open>None\<close> is Python's \<^verbatim>\<open>None\<close>) and a row is a map from
  column names to cells: \<open>r k = None\<close> says that \<open>k\<close> is not a key of the row.
\<close>

type_synonym cell = "string option"
type_synonym row = "string \<rightharpoonup> cell"

definition dq :: string where
  "dq = [CHR 0x22]"

definition nl :: string where
  "nl = [CHR 0x0A]"

definition sq :: string where
  "sq = [CHR 0x27]"

text \<open>\<^verbatim>\<open>s.split(sep)\<close> for a one-character separator: the empty string gives one empty part.\<close>

fun split_on :: "char \<Rightarrow> string \<Rightarrow> string list" where
  "split_on sep [] = [[]]"
| "split_on sep (c # cs) =
     (if c = sep then [] # split_on sep cs
      else (case split_on sep cs of
              [] \<Rightarrow> [[c]]
            | p # ps \<Rightarrow> (c # p) # ps))"

text \<open>\<^verbatim>\<open>sep.join(parts)\<close>.\<close>

fun join :: "string \<Rightarrow> string list \<Rightarrow> string" where
  "join sep [] = []"
| "join sep [p] = p"
| "join sep (p # q # ps) = p @ sep @ join sep (q # ps)"

text \<open>\<^verbatim>\<open>s.endswith(suffix)\<close>.\<close>

definition endswith :: "string \<Rightarrow> string \<Rightarrow> bool" where
  "endswith s suffix = (length suffix \<le> length s \<and> drop (length s - length suffix) s = suffix)"

section \<open>The data model\<close>

text \<open>
  Modelled from the spec: \<^verbatim>\<open>models.ResourceDto\<close> is not among the sources. Its attributes
  are the ones \<^verbatim>\<open>_parse_row\<close> passes to the constructor or assigns, which are the ones the
  data model of the specification lists; an attribute the constructor call leaves out starts
  as \<open>None\<close> (``unset/null''). The members of the enumerations (\<^verbatim>\<open>enums.py\<close>, absent as well)
  are values of a type \<open>'e\<close>, the grades returned by \<^verbatim>\<open>parse_grade\<close> of a type \<open>'g\<close>.
\<close>

record ('e, 'g) ResourceDto =
  id_attr :: int
  businessName :: cell
  streetAddress :: cell
  state :: "'e option"
  city :: cell
  zipCode :: cell
  phone :: cell
  webSite :: cell
  description :: cell
  category :: "string list option"
  subCategory :: "string list option"
  startGrade :: "'g option"
  endGrade :: "'g option"
  careerInterest :: "'e list option"
  cost :: "'e option"
  instruction :: "'e list option"
  boarding :: "'e list option"
  gender :: "'e option"
  locationLimit :: "'e list option"

text \<open>The instance state of \<^verbatim>\<open>CSVParser\<close>, as \<^verbatim>\<open>__init__\<close> declares it.\<close>

record ('e, 'g) CSVParser =
  files :: "string set"
  resources :: "('e, 'g) ResourceDto list"
  verbose_flag :: bool
  post_flag :: bool
  rollback_flag :: bool
  categories :: "string set"
  subcategories :: "string set"
  err_log :: "string list"

definition init_parser :: "('e, 'g) CSVParser" where
  "init_parser = \<lparr> files = {}, resources = [], verbose_flag = False, post_flag = False,
     rollback_flag = False, categories = {}, subcategories = {}, err_log = [] \<rparr>"

section \<open>What the parser imports\<close>

text \<open>
  \<^verbatim>\<open>csv_parser.py\<close> imports \<^verbatim>\<open>validate_field\<close>, \<^verbatim>\<open>validate_enum_field\<close>,
  \<^verbatim>\<open>validate_list_enum_field\<close> and \<^verbatim>\<open>parse_grade\<close> from \<^verbatim>\<open>utils.parsing\<close>,
  \<^verbatim>\<open>bulleted_list\<close> from \<^verbatim>\<open>utils.str\<close>, \<^verbatim>\<open>allowed_fields\<close> from \<^verbatim>\<open>cfg\<close> and the
  enumerations from \<^verbatim>\<open>enums\<close>; none of these modules is among the sources. The parser is
  therefore modelled over any implementation of them, collected in the record \<open>deps\<close>:
  \<^item> \<open>validate_field\<close> gives the truth value of what the Python function returns, the only
    thing \<^verbatim>\<open>_parse_row\<close> looks at;
  \<^item> \<open>validate_enum_field\<close> gives \<open>None\<close> for a false result and the member otherwise;
  \<^item> \<open>validate_list_enum_field\<close> gives \<open>None\<close> for Python's \<^verbatim>\<open>None\<close> and the list
    otherwise (an empty list is false in Python, and the model tests for it);
  \<^item> \<open>parse_grade\<close> gives \<open>None\<close> for a false result and the pair of grades otherwise;
  \<^item> \<open>attrs\<close> stands for \<^verbatim>\<open>ResourceDto.__annotations__.keys()\<close>.
  Each of the four functions may raise.
\<close>

datatype enum_class =
  State | Cost | Interest | InstructionType | BoardingType | LocationLimit | Gender

record ('e, 'g) deps =
  validate_field :: "string \<Rightarrow> row \<Rightarrow> error + bool"
  validate_enum_field :: "enum_class \<Rightarrow> string \<Rightarrow> row \<Rightarrow> error + 'e option"
  validate_list_enum_field :: "enum_class \<Rightarrow> string \<Rightarrow> row \<Rightarrow> error + 'e list option"
  parse_grade :: "cell \<Rightarrow> error + ('g \<times> 'g) option"
  bulleted_list :: "string list \<Rightarrow> string"
  attrs :: "string set"
  allowed_fields :: "string set"

definition bind_res :: "error + 'a \<Rightarrow> ('a \<Rightarrow> error + 'b) \<Rightarrow> error + 'b" where
  "bind_res m f = (case m of Inl e \<Rightarrow> Inl e | Inr x \<Rightarrow> f x)"

text \<open>\<^verbatim>\<open>row[key]\<close> raises \<^verbatim>\<open>KeyError\<close> for a key the row does not have.\<close>

definition getitem :: "row \<Rightarrow> string \<Rightarrow> error + cell" where
  "getitem r k = (case r k of None \<Rightarrow> Inl (KeyError k) | Some v \<Rightarrow> Inr v)"

section \<open>The category validator\<close>

text \<open>
  \<^verbatim>\<open>_validate_category_field\<close>: the loop over the parts raises at the first part that is not
  in the vocabulary; the parts are returned as \<^verbatim>\<open>split\<close> produced them. A cell that is
  \<^verbatim>\<open>None\<close> has no \<^verbatim>\<open>split\<close>.
\<close>

fun check_cats :: "string set \<Rightarrow> bool \<Rightarrow> string list \<Rightarrow> error + unit" where
  "check_cats vocab subcategory [] = Inr ()"
| "check_cats vocab subcategory (cat # cats) =
     (if cat \<notin> vocab
      then Inl (Exception (dq @ cat @ dq @ '' is not a valid ''
                  @ (if subcategory then ''sub'' else []) @ ''category''))
      else check_cats vocab subcategory cats)"

definition validate_category_field ::
  "('e, 'g) CSVParser \<Rightarrow> cell \<Rightarrow> bool \<Rightarrow> error + string list" where
  "validate_category_field self cats subcategory =
     (case cats of
        None \<Rightarrow> Inl (AttributeError (sq @ ''NoneType'' @ sq @ '' object has no attribute ''
                          @ sq @ ''split'' @ sq))
      | Some raw \<Rightarrow>
          (let parts = split_on CHR ''+'' raw in
           case check_cats (if subcategory then subcategories self else categories self)
                  subcategory parts of
             Inl e \<Rightarrow> Inl e
           | Inr u \<Rightarrow> Inr parts))"

section \<open>Header and required-field checks\<close>

text \<open>
  \<^verbatim>\<open>_validate_column_names\<close>: the loop goes through the whole header, appending one message
  to \<^verbatim>\<open>self.err_log\<close> for each field that is neither an attribute nor an allowed field, and
  only then raises. The pair carried by the loop is \<^verbatim>\<open>err\<close> and \<^verbatim>\<open>self.err_log\<close>.
  \<^verbatim>\<open>reader.fieldnames\<close> is \<^verbatim>\<open>None\<close> for an empty file, which cannot be iterated.
\<close>

fun columns_loop ::
  "('e, 'g) deps \<Rightarrow> string \<Rightarrow> string list \<Rightarrow> bool \<times> string list \<Rightarrow> bool \<times> string list" where
  "columns_loop D fp [] (err, log) = (err, log)"
| "columns_loop D fp (field # flds) (err, log) =
     (if field \<notin> attrs D \<and> field \<notin> allowed_fields D
      then columns_loop D fp flds
             (True, log @ [fp @ '': '' @ dq @ field @ dq @ '' is not a valid field''])
      else columns_loop D fp flds (err, log))"

definition validate_column_names ::
  "('e, 'g) deps \<Rightarrow> string \<Rightarrow> string list option \<Rightarrow> ('e, 'g) CSVParser
     \<Rightarrow> (error + unit) \<times> ('e, 'g) CSVParser" where
  "validate_column_names D fp flds self =
     (case flds of
        None \<Rightarrow> (Inl (TypeError (sq @ ''NoneType'' @ sq @ '' object is not iterable'')), self)
      | Some fs \<Rightarrow>
          (let (err, log) = columns_loop D fp fs (False, err_log self);
               self' = self\<lparr>err_log := log\<rparr>
           in if err
              then (Inl (Exception (''Unable to parse '' @ fp @ '' due to invalid fields:'' @ nl
                           @ bulleted_list D (err_log self'))), self')
              else (Inr (), self')))"

text \<open>\<^verbatim>\<open>_validate_required_fields\<close>, with the same shape of loop.\<close>

fun required_loop :: "row \<Rightarrow> string list \<Rightarrow> bool \<times> string list \<Rightarrow> bool \<times> string list" where
  "required_loop r [] (err, log) = (err, log)"
| "required_loop r (field # flds) (err, log) =
     (if r field = None
      then required_loop r flds (True, log @ [dq @ field @ dq @ '' is a required row''])
      else required_loop r flds (err, log))"

definition required_fields :: "string list" where
  "required_fields = [''businessName'', ''category'', ''subCategory'']"

definition validate_required_fields ::
  "('e, 'g) deps \<Rightarrow> row \<Rightarrow> ('e, 'g) CSVParser \<Rightarrow> (error + unit) \<times> ('e, 'g) CSVParser" where
  "validate_required_fields D r self =
     (let (err, log) = required_loop r required_fields (False, err_log self);
          self' = self\<lparr>err_log := log\<rparr>
      in if err
         then (Inl (Exception
                 (''At least 1 required field was not found in one of the rows:'' @ nl
                    @ bulleted_list D (err_log self'))), self')
         else (Inr (), self'))"

section \<open>The row normalizer\<close>

text \<open>The record \<^verbatim>\<open>_parse_row\<close> starts from.\<close>

definition new_resource :: "('e, 'g) ResourceDto" where
  "new_resource = \<lparr> id_attr = 0, businessName = None, streetAddress = None, state = None,
     city = None, zipCode = None, phone = None, webSite = None, description = None,
     category = None, subCategory = None, startGrade = None, endGrade = None,
     careerInterest = None, cost = None, instruction = None, boarding = None,
     gender = None, locationLimit = None \<rparr>"

text \<open>\<^verbatim>\<open>setattr(resource, field, value)\<close> for the six simple fields of the loop.\<close>

definition setattr :: "('e, 'g) ResourceDto \<Rightarrow> string \<Rightarrow> cell \<Rightarrow> ('e, 'g) ResourceDto" where
  "setattr resource field v =
     (if field = ''streetAddress'' then resource\<lparr>streetAddress := v\<rparr>
      else if field = ''city'' then resource\<lparr>city := v\<rparr>
      else if field = ''zipCode'' then resource\<lparr>zipCode := v\<rparr>
      else if field = ''phone'' then resource\<lparr>phone := v\<rparr>
      else if field = ''webSite'' then resource\<lparr>webSite := v\<rparr>
      else if field = ''description'' then resource\<lparr>description := v\<rparr>
      else resource)"

definition simple_fields :: "string list" where
  "simple_fields = [''streetAddress'', ''city'', ''zipCode'', ''phone'', ''webSite'', ''description'']"

fun apply_simple_fields ::
  "('e, 'g) deps \<Rightarrow> row \<Rightarrow> string list \<Rightarrow> ('e, 'g) ResourceDto \<Rightarrow> error + ('e, 'g) ResourceDto" where
  "apply_simple_fields D r [] resource = Inr resource"
| "apply_simple_fields D r (field # flds) resource =
     (case validate_field D field r of
        Inl e \<Rightarrow> Inl e
      | Inr res \<Rightarrow>
          if res
          then (case getitem r field of
                  Inl e \<Rightarrow> Inl e
                | Inr v \<Rightarrow> apply_simple_fields D r flds (setattr resource field v))
          else apply_simple_fields D r flds resource)"

text \<open>
  \<^verbatim>\<open>if res := f(...): resource.attr = res\<close>: the attribute is assigned when the result is
  true in Python's sense; for a list that is ``not \<^verbatim>\<open>None\<close> and not empty''.
\<close>

definition apply_opt :: "error + 'a option \<Rightarrow> ('a \<Rightarrow> 'r \<Rightarrow> 'r) \<Rightarrow> 'r \<Rightarrow> error + 'r" where
  "apply_opt m assign resource =
     (case m of
        Inl e \<Rightarrow> Inl e
      | Inr None \<Rightarrow> Inr resource
      | Inr (Some v) \<Rightarrow> Inr (assign v resource))"

definition apply_list :: "error + 'a list option \<Rightarrow> ('a list \<Rightarrow> 'r \<Rightarrow> 'r) \<Rightarrow> 'r \<Rightarrow> error + 'r" where
  "apply_list m assign resource =
     (case m of
        Inl e \<Rightarrow> Inl e
      | Inr None \<Rightarrow> Inr resource
      | Inr (Some []) \<Rightarrow> Inr resource
      | Inr (Some (v # vs)) \<Rightarrow> Inr (assign (v # vs) resource))"

definition apply_grade ::
  "('e, 'g) deps \<Rightarrow> row \<Rightarrow> ('e, 'g) ResourceDto \<Rightarrow> error + ('e, 'g) ResourceDto" where
  "apply_grade D r resource =
     (case r ''GRADELEVEL'' of
        None \<Rightarrow> Inr resource
      | Some v \<Rightarrow>
          apply_opt (parse_grade D v)
            (\<lambda>res x. x\<lparr>startGrade := Some (fst res), endGrade := Some (snd res)\<rparr>) resource)"

text \<open>
  The part of \<^verbatim>\<open>_parse_row\<close> after the required-field check, in the order of the source.
  It reads the vocabulary of \<open>self\<close> and changes nothing in it.
\<close>

definition parse_fields ::
  "('e, 'g) deps \<Rightarrow> ('e, 'g) CSVParser \<Rightarrow> row \<Rightarrow> error + ('e, 'g) ResourceDto" where
  "parse_fields D self r =
     bind_res (getitem r ''businessName'') (\<lambda>name.
     bind_res (apply_simple_fields D r simple_fields
                 (new_resource\<lparr>businessName := name, id_attr := 0\<rparr>)) (\<lambda>r1.
     bind_res (getitem r ''category'') (\<lambda>c.
     bind_res (validate_category_field self c False) (\<lambda>cats.
     bind_res (getitem r ''subCategory'') (\<lambda>sc.
     bind_res (validate_category_field self sc True) (\<lambda>subcats.
     bind_res (apply_grade D r (r1\<lparr>category := Some cats, subCategory := Some subcats\<rparr>)) (\<lambda>r2.
     bind_res (apply_opt (validate_enum_field D State ''state'' r)
                 (\<lambda>v x. x\<lparr>state := Some v\<rparr>) r2) (\<lambda>r3.
     bind_res (apply_list (validate_list_enum_field D Interest ''careerInterest'' r)
                 (\<lambda>v x. x\<lparr>careerInterest := Some v\<rparr>) r3) (\<lambda>r4.
     bind_res (apply_opt (validate_enum_field D Cost ''cost'' r)
                 (\<lambda>v x. x\<lparr>cost := Some v\<rparr>) r4) (\<lambda>r5.
     bind_res (apply_list (validate_list_enum_field D InstructionType ''instruction'' r)
                 (\<lambda>v x. x\<lparr>instruction := Some v\<rparr>) r5) (\<lambda>r6.
     bind_res (apply_list (validate_list_enum_field D BoardingType ''boarding'' r)
                 (\<lambda>v x. x\<lparr>boarding := Some v\<rparr>) r6) (\<lambda>r7.
     bind_res (apply_opt (validate_enum_field D Gender ''gender'' r)
                 (\<lambda>v x. x\<lparr>gender := Some v\<rparr>) r7) (\<lambda>r8.
     apply_list (validate_list_enum_field D LocationLimit ''locationLimit'' r)
                 (\<lambda>v x. x\<lparr>locationLimit := Some v\<rparr>) r8)))))))))))))"

definition parse_row ::
  "('e, 'g) deps \<Rightarrow> row \<Rightarrow> ('e, 'g) CSVParser
     \<Rightarrow> (error + ('e, 'g) ResourceDto) \<times> ('e, 'g) CSVParser" where
  "parse_row D r self =
     (case validate_required_fields D r self of
        (Inl e, self') \<Rightarrow> (Inl e, self')
      | (Inr u, self') \<Rightarrow> (parse_fields D self' r, self'))"

section \<open>Parsing a file\<close>

text \<open>
  What \<^verbatim>\<open>open\<close> and \<^verbatim>\<open>csv.DictReader\<close> give for a path: the header
  (\<^verbatim>\<open>reader.fieldnames\<close>) and the data rows in file order. The file system is a record of
  the answers of the operating system; \<open>open_csv\<close> is \<open>Inl\<close> when \<^verbatim>\<open>open\<close> raises.
\<close>

record csv_file =
  fieldnames :: "string list option"
  rows :: "row list"

record filesystem =
  isfile :: "string \<Rightarrow> bool"
  isdir :: "string \<Rightarrow> bool"
  exists :: "string \<Rightarrow> bool"
  listdir :: "string \<Rightarrow> string list"
  open_csv :: "string \<Rightarrow> error + csv_file"

text \<open>
  The loop of \<^verbatim>\<open>_parse_csv\<close> over the rows. An exception of \<^verbatim>\<open>_parse_row\<close> is not caught:
  it ends the loop and the function. The \<^verbatim>\<open>print\<close> under \<^verbatim>\<open>verbose_flag\<close> changes no state
  and is left out.
\<close>

fun parse_rows ::
  "('e, 'g) deps \<Rightarrow> row list \<Rightarrow> nat \<Rightarrow> ('e, 'g) CSVParser \<Rightarrow> (error + nat) \<times> ('e, 'g) CSVParser" where
  "parse_rows D [] n_rows self = (Inr n_rows, self)"
| "parse_rows D (r # rs) n_rows self =
     (case parse_row D r self of
        (Inl e, self') \<Rightarrow> (Inl e, self')
      | (Inr res, self') \<Rightarrow>
          parse_rows D rs (n_rows + 1) (self'\<lparr>resources := resources self' @ [res]\<rparr>))"

definition parse_csv ::
  "('e, 'g) deps \<Rightarrow> filesystem \<Rightarrow> string \<Rightarrow> ('e, 'g) CSVParser
     \<Rightarrow> (error + nat) \<times> ('e, 'g) CSVParser" where
  "parse_csv D fs fp self =
     (case open_csv fs fp of
        Inl e \<Rightarrow> (Inl e, self)
      | Inr file \<Rightarrow>
          (case validate_column_names D fp (fieldnames file) self of
             (Inl e, self') \<Rightarrow> (Inl e, self')
           | (Inr u, self') \<Rightarrow> parse_rows D (rows file) 0 self'))"

text \<open>
  \<^verbatim>\<open>_parse_all\<close> makes one task per file and gathers them. No coroutine of the parser ever
  waits for anything but \<^verbatim>\<open>_parse_row\<close>, which waits for nothing, so the event loop runs
  each task from start to end before the next one, in the order the tasks were made. That
  order is the iteration order of the set \<^verbatim>\<open>self.files\<close>, which Python does not fix: it is
  the list \<open>order\<close> here. \<^verbatim>\<open>asyncio.gather\<close> lets every task run and then raises the first
  exception among them, or returns the results, which are summed.
\<close>

fun gather ::
  "('s \<Rightarrow> (error + nat) \<times> 's) list \<Rightarrow> 's \<Rightarrow> (error + nat) list \<times> 's" where
  "gather [] self = ([], self)"
| "gather (task # tasks) self =
     (case task self of
        (res, self') \<Rightarrow> (case gather tasks self' of (ress, self'') \<Rightarrow> (res # ress, self'')))"

fun sum_results :: "(error + nat) list \<Rightarrow> error + nat" where
  "sum_results [] = Inr 0"
| "sum_results (Inl e # ress) = Inl e"
| "sum_results (Inr n # ress) =
     (case sum_results ress of Inl e \<Rightarrow> Inl e | Inr m \<Rightarrow> Inr (n + m))"

definition parse_all ::
  "('e, 'g) deps \<Rightarrow> filesystem \<Rightarrow> string list \<Rightarrow> ('e, 'g) CSVParser
     \<Rightarrow> (error + nat) \<times> ('e, 'g) CSVParser" where
  "parse_all D fs order self =
     (case gather (map (\<lambda>fp. parse_csv D fs fp) order) self of
        (ress, self') \<Rightarrow> (sum_results ress, self'))"

section \<open>Command line and file discovery\<close>

text \<open>
  \<^verbatim>\<open>_process_fp\<close> calls itself on the entries of a directory. The first argument bounds
  the depth of that recursion; \<open>None\<close> says the bound was reached. \<open>process_entries\<close> is the
  loop over \<^verbatim>\<open>os.listdir(fp)\<close>, with \<^verbatim>\<open>nfiles\<close> as its accumulator.
\<close>

fun process_fp ::
    "nat \<Rightarrow> filesystem \<Rightarrow> string \<Rightarrow> ('e, 'g) CSVParser \<Rightarrow> (nat \<times> ('e, 'g) CSVParser) option"
  and process_entries ::
    "nat \<Rightarrow> filesystem \<Rightarrow> string \<Rightarrow> string list \<Rightarrow> nat \<Rightarrow> ('e, 'g) CSVParser
       \<Rightarrow> (nat \<times> ('e, 'g) CSVParser) option" where
  "process_fp 0 fs fp self = None"
| "process_fp (Suc depth) fs fp self =
     (if endswith fp ''.csv'' \<and> isfile fs fp
      then Some (0, self\<lparr>files := insert fp (files self)\<rparr>)
      else if isdir fs fp
      then process_entries depth fs fp (listdir fs fp) 0 self
      else if exists fs fp
      then Some (0, self)
      else Some (1, self\<lparr>err_log := err_log self
                          @ [''Path '' @ dq @ fp @ dq @ '' does not exist'']\<rparr>))"
| "process_entries depth fs fp [] nfiles self = Some (nfiles, self)"
| "process_entries depth fs fp (p # ps) nfiles self =
     (case process_fp depth fs (fp @ ''/'' @ p) self of
        None \<Rightarrow> None
      | Some (n, self') \<Rightarrow> process_entries depth fs fp ps (nfiles + n) self')"

text \<open>\<^verbatim>\<open>flag.lower()\<close>, on the ASCII letters.\<close>

definition lower_char :: "char \<Rightarrow> char" where
  "lower_char c =
     (if 65 \<le> (of_char c :: nat) \<and> (of_char c :: nat) \<le> 90
      then char_of ((of_char c :: nat) + 32) else c)"

definition lower :: "string \<Rightarrow> string" where
  "lower s = map lower_char s"

definition set_flag :: "string \<Rightarrow> ('e, 'g) CSVParser \<Rightarrow> ('e, 'g) CSVParser" where
  "set_flag flag self =
     (let f = lower flag in
      if f = ''-v'' \<or> f = ''--verbose'' then self\<lparr>verbose_flag := True\<rparr>
      else if f = ''--upload'' then self\<lparr>post_flag := True\<rparr>
      else if f = ''-r'' \<or> f = ''--rollback'' then self\<lparr>rollback_flag := True\<rparr>
      else self)"

definition startswith :: "string \<Rightarrow> string \<Rightarrow> bool" where
  "startswith s prefix = (take (length prefix) s = prefix)"

fun args_loop ::
  "nat \<Rightarrow> filesystem \<Rightarrow> string list \<Rightarrow> nat \<Rightarrow> ('e, 'g) CSVParser
     \<Rightarrow> (nat \<times> ('e, 'g) CSVParser) option" where
  "args_loop depth fs [] n_failed self = Some (n_failed, self)"
| "args_loop depth fs (s # args) n_failed self =
     (if startswith s ''-''
      then args_loop depth fs args n_failed (set_flag s self)
      else (case process_fp depth fs s self of
              None \<Rightarrow> None
            | Some (n, self') \<Rightarrow> args_loop depth fs args (n_failed + n) self'))"

definition usage :: string where
  "usage = ''Program expects at least 1 argument.'' @ nl @ nl
     @ ''Usage: python <path to main.py> <directories containing CSV files | CSV names delimited by spaces>''"

definition process_args ::
  "nat \<Rightarrow> ('e, 'g) deps \<Rightarrow> filesystem \<Rightarrow> string list \<Rightarrow> ('e, 'g) CSVParser
     \<Rightarrow> ((error + unit) \<times> ('e, 'g) CSVParser) option" where
  "process_args depth D fs argv self =
     (if length argv < 2 then Some (Inl (Exception usage), self)
      else (case args_loop depth fs (tl argv) 0 self of
              None \<Rightarrow> None
            | Some (n_failed, self') \<Rightarrow>
                if n_failed > 0
                then Some (Inl (FileNotFoundError
                        (''Some paths were not found:'' @ nl @ bulleted_list D (err_log self'))),
                      self')
                else Some (Inr (), self')))"

section \<open>The uploader\<close>

text \<open>
  \<^verbatim>\<open>ResourceUploader.upload\<close> sends one request per record. The remote endpoint is outside
  the program, so the function is modelled over the exchanges it has: each record with the
  outcome of its request, in the order of \<^verbatim>\<open>resources\<close>. Either \<^verbatim>\<open>session.post\<close> or
  \<^verbatim>\<open>resp.json()\<close> raised, and the exception leaves the loop and the function, or there is a
  response: its status and its JSON body \<^verbatim>\<open>data\<close>, of a type \<open>'d\<close>. What the code does with
  a body is given by \<open>json_ops\<close>: \<open>data_id\<close> is \<^verbatim>\<open>data["data"]["id"]\<close>, which raises when a key
  is missing, \<open>str_data\<close> is the text of the body in a formatted string and \<open>str_id\<close> is
  \<^verbatim>\<open>str\<close> on an id. The output of \<^verbatim>\<open>print\<close> under \<^verbatim>\<open>verbose\<close> changes nothing and is left out.
\<close>

record 'd response =
  status :: int
  data :: 'd

datatype 'd outcome = Raised error | Responded "'d response"

record ('d, 'i) json_ops =
  data_id :: "'d \<Rightarrow> error + 'i"
  str_data :: "'d \<Rightarrow> string"
  str_id :: "'i \<Rightarrow> string"

text \<open>The state of \<^verbatim>\<open>ResourceUploader\<close>: its own \<^verbatim>\<open>err_log\<close>.\<close>

record ResourceUploader =
  uploader_err_log :: "string list"

text \<open>
  The disk, as far as the uploader can tell: the paths that are directories, the regular
  files with their text, and the paths the operating system will not let the process
  create or write. \<^verbatim>\<open>os.mkdir\<close> and \<^verbatim>\<open>open(path, "w")\<close> raise as Python does: a path that
  exists cannot be made a directory, a file cannot be opened under a regular file or under
  nothing, and a directory cannot be opened for writing.
\<close>

record disk =
  dirs :: "string set"
  regular :: "string \<rightharpoonup> string"
  denied :: "string set"

definition path_exists :: "disk \<Rightarrow> string \<Rightarrow> bool" where
  "path_exists dsk p = (p \<in> dirs dsk \<or> regular dsk p \<noteq> None)"

definition mkdir :: "string \<Rightarrow> disk \<Rightarrow> error option \<times> disk" where
  "mkdir p dsk =
     (if path_exists dsk p then (Some (FileExistsError p), dsk)
      else if p \<in> denied dsk then (Some (PermissionError p), dsk)
      else (None, dsk\<lparr>dirs := insert p (dirs dsk)\<rparr>))"

text \<open>Opening \<open>p\<close>, a name directly under \<open>parent\<close>, for writing, and writing \<open>text\<close> to it.\<close>

definition open_write :: "string \<Rightarrow> string \<Rightarrow> string \<Rightarrow> disk \<Rightarrow> error option \<times> disk" where
  "open_write parent p text dsk =
     (if regular dsk parent \<noteq> None then (Some (NotADirectoryError p), dsk)
      else if parent \<notin> dirs dsk then (Some (FileNotFoundError p), dsk)
      else if p \<in> dirs dsk then (Some (IsADirectoryError p), dsk)
      else if p \<in> denied dsk then (Some (PermissionError p), dsk)
      else (None, dsk\<lparr>regular := (regular dsk)(p \<mapsto> text)\<rparr>))"

text \<open>\<^verbatim>\<open>str\<close> of a natural number (a counter, a process id) and of a cell.\<close>

definition digit_char :: "nat \<Rightarrow> char" where
  "digit_char d = char_of (48 + d)"

function str_nat :: "nat \<Rightarrow> string" where
  "str_nat n = (if n < 10 then [digit_char n] else str_nat (n div 10) @ [digit_char (n mod 10)])"
  by pat_completeness auto
termination
  by (relation "measure (\<lambda>n. n)") auto

declare str_nat.simps [simp del]

definition str_cell :: "cell \<Rightarrow> string" where
  "str_cell c = (case c of None \<Rightarrow> ''None'' | Some s \<Rightarrow> s)"

text \<open>
  The loop over the records. It carries \<^verbatim>\<open>n_uploaded\<close>, \<^verbatim>\<open>err\<close>, \<^verbatim>\<open>uploaded\<close> and
  \<^verbatim>\<open>self.err_log\<close>. An exception of the request, of the reading of the body or of the id
  lookup is not caught: it ends the loop, with what was counted up to there.
\<close>

fun upload_loop ::
  "('d, 'i) json_ops \<Rightarrow> (('e, 'g) ResourceDto \<times> 'd outcome) list
     \<Rightarrow> nat \<times> nat \<times> 'i list \<times> string list
     \<Rightarrow> error option \<times> nat \<times> nat \<times> 'i list \<times> string list" where
  "upload_loop J [] (n_uploaded, err, uploaded, log) = (None, n_uploaded, err, uploaded, log)"
| "upload_loop J ((resource, Raised e) # rest) (n_uploaded, err, uploaded, log) =
     (Some e, n_uploaded, err, uploaded, log)"
| "upload_loop J ((resource, Responded resp) # rest) (n_uploaded, err, uploaded, log) =
     (if status resp = 200
      then (case data_id J (data resp) of
              Inl e \<Rightarrow> (Some e, n_uploaded + 1, err, uploaded, log)
            | Inr i \<Rightarrow> upload_loop J rest (n_uploaded + 1, err, uploaded @ [i], log))
      else upload_loop J rest
             (n_uploaded, err + 1, uploaded,
              log @ [''Resource '' @ str_cell (businessName resource)
                       @ '' failed to upload: '' @ str_data J (data resp)]))"

definition outname :: "nat \<Rightarrow> string" where
  "outname pid = ''rollback_ids/'' @ str_nat pid @ ''.txt''"

text \<open>
  The part of \<^verbatim>\<open>upload\<close> that writes the ids: nothing when there is none, otherwise the
  directory is made unless the path exists and the file is written. Neither call is
  guarded, so what they raise leaves the function.
\<close>

definition write_rollback_ids ::
  "('d, 'i) json_ops \<Rightarrow> nat \<Rightarrow> 'i list \<Rightarrow> disk \<Rightarrow> error option \<times> disk" where
  "write_rollback_ids J pid uploaded dsk =
     (if length uploaded > 0
      then (case (if \<not> path_exists dsk ''rollback_ids'' then mkdir ''rollback_ids'' dsk
                  else (None, dsk)) of
              (Some e, d1) \<Rightarrow> (Some e, d1)
            | (None, d1) \<Rightarrow>
                open_write ''rollback_ids'' (outname pid) (join '' '' (map (str_id J) uploaded)) d1)
      else (None, dsk))"

definition upload ::
  "('e, 'g) deps \<Rightarrow> ('d, 'i) json_ops \<Rightarrow> nat \<Rightarrow> (('e, 'g) ResourceDto \<times> 'd outcome) list
     \<Rightarrow> ResourceUploader \<Rightarrow> disk \<Rightarrow> (error + nat) \<times> ResourceUploader \<times> disk" where
  "upload D J pid exchanges self dsk =
     (case upload_loop J exchanges (0, 0, [], uploader_err_log self) of
        (Some e, n_uploaded, err, uploaded, log) \<Rightarrow>
          (Inl e, self\<lparr>uploader_err_log := log\<rparr>, dsk)
      | (None, n_uploaded, err, uploaded, log) \<Rightarrow>
          (case write_rollback_ids J pid uploaded dsk of
             (Some e, dsk') \<Rightarrow> (Inl e, self\<lparr>uploader_err_log := log\<rparr>, dsk')
           | (None, dsk') \<Rightarrow>
               if err > 0
               then (Inl (ResourceUploadError
                       (''Failed to upload '' @ str_nat err @ '' resources:'' @ nl
                          @ bulleted_list D log)),
                     self\<lparr>uploader_err_log := log\<rparr>, dsk')
               else (Inr n_uploaded, self\<lparr>uploader_err_log := log\<rparr>, dsk')))"

section \<open>The absent helpers, as the specification describes them\<close>

text \<open>Trimming, as \<^verbatim>\<open>str.strip\<close> does it for the ASCII white space.\<close>

definition is_space :: "char \<Rightarrow> bool" where
  "is_space c = (c \<in> {CHR 0x20, CHR 0x09, CHR 0x0A, CHR 0x0B, CHR 0x0C, CHR 0x0D,
                       CHR 0x1C, CHR 0x1D, CHR 0x1E, CHR 0x1F})"

definition strip :: "string \<Rightarrow> string" where
  "strip s = rev (dropWhile is_space (rev (dropWhile is_space s)))"

text \<open>
  Modelled from the spec: \<^verbatim>\<open>utils.parsing\<close> is not among the sources. Section 4.2 of the
  specification says of the scalar validator that it returns the raw value of the column
  when the column is present and not empty after trimming, and signals ``absent''
  otherwise; of the enum validator that it does the same and fails for a value that is not a
  member; of the list validator that it splits on \<^verbatim>\<open>+\<close>, trims each token and fails at the
  first token that is not a member. \<open>registry\<close> is the lookup of the Enum Registry, and the
  failure is a plain exception naming the token.
\<close>

definition spec_validate_field :: "string \<Rightarrow> row \<Rightarrow> error + bool" where
  "spec_validate_field field r =
     (case r field of
        Some (Some v) \<Rightarrow> Inr (strip v \<noteq> [])
      | Some None \<Rightarrow> Inr False
      | None \<Rightarrow> Inr False)"

definition spec_validate_enum_field ::
  "(enum_class \<Rightarrow> string \<rightharpoonup> 'e) \<Rightarrow> enum_class \<Rightarrow> string \<Rightarrow> row \<Rightarrow> error + 'e option" where
  "spec_validate_enum_field registry enum field r =
     (case r field of
        Some (Some v) \<Rightarrow>
          (if strip v = [] then Inr None
           else (case registry enum (strip v) of
                   None \<Rightarrow> Inl (Exception (''InvalidEnumValue: '' @ strip v))
                 | Some m \<Rightarrow> Inr (Some m)))
      | Some None \<Rightarrow> Inr None
      | None \<Rightarrow> Inr None)"

fun spec_members :: "(string \<rightharpoonup> 'e) \<Rightarrow> string list \<Rightarrow> error + 'e list" where
  "spec_members look [] = Inr []"
| "spec_members look (t # ts) =
     (case look t of
        None \<Rightarrow> Inl (Exception (''InvalidEnumValue: '' @ t))
      | Some m \<Rightarrow> (case spec_members look ts of Inl e \<Rightarrow> Inl e | Inr ms \<Rightarrow> Inr (m # ms)))"

definition spec_validate_list_enum_field ::
  "(enum_class \<Rightarrow> string \<rightharpoonup> 'e) \<Rightarrow> enum_class \<Rightarrow> string \<Rightarrow> row \<Rightarrow> error + 'e list option" where
  "spec_validate_list_enum_field registry enum field r =
     (case r field of
        Some (Some v) \<Rightarrow>
          (if strip v = [] then Inr None
           else (case spec_members (registry enum) (map strip (split_on CHR ''+'' v)) of
                   Inl e \<Rightarrow> Inl e
                 | Inr ms \<Rightarrow> Inr (Some ms)))
      | Some None \<Rightarrow> Inr None
      | None \<Rightarrow> Inr None)"

text \<open>
  Modelled from the spec: the attribute names of \<^verbatim>\<open>models.ResourceDto\<close>, which is not among
  the sources, are the names of the data model in section 3 of the specification.
\<close>

definition spec_attrs :: "string set" where
  "spec_attrs = {''id'', ''businessName'', ''category'', ''subCategory'', ''streetAddress'',
     ''city'', ''zipCode'', ''phone'', ''webSite'', ''description'', ''state'', ''cost'',
     ''gender'', ''careerInterest'', ''instruction'', ''boarding'', ''locationLimit'',
     ''startGrade'', ''endGrade''}"

text \<open>
  The parser's imports with the helpers of the specification. What the specification leaves
  open stays a parameter: the registry, the grade parser, the text of a bulleted list and
  the allowed extra fields.
\<close>

definition spec_deps ::
  "(enum_class \<Rightarrow> string \<rightharpoonup> 'e) \<Rightarrow> (cell \<Rightarrow> error + ('g \<times> 'g) option) \<Rightarrow> (string list \<Rightarrow> string)
     \<Rightarrow> string set \<Rightarrow> ('e, 'g) deps" where
  "spec_deps registry grade bl allowed =
     \<lparr> validate_field = spec_validate_field,
       validate_enum_field = spec_validate_enum_field registry,
       validate_list_enum_field = spec_validate_list_enum_field registry,
       parse_grade = grade,
       bulleted_list = bl,
       attrs = spec_attrs,
       allowed_fields = allowed \<rparr>"

text \<open>
  The Category Validator as section 4.3 of the specification words it: split on \<^verbatim>\<open>+\<close>, trim
  each part, check every trimmed part, return the trimmed parts or fail at the first one
  that is unknown.
\<close>

definition spec_category_validator :: "string set \<Rightarrow> bool \<Rightarrow> string \<Rightarrow> error + string list" where
  "spec_category_validator vocab subcategory raw =
     (let parts = map strip (split_on CHR ''+'' raw) in
      case check_cats vocab subcategory parts of
        Inl e \<Rightarrow> Inl e
      | Inr u \<Rightarrow> Inr parts)"

section \<open>The example of section 8\<close>

text \<open>
  The three-row file with header \<^verbatim>\<open>businessName,category,subCategory,phone\<close> and the
  vocabulary \<^verbatim>\<open>{"Tutoring"}\<close>, \<^verbatim>\<open>{"Math"}\<close>.
\<close>

definition example_row :: "string \<Rightarrow> string \<Rightarrow> string \<Rightarrow> string \<Rightarrow> row" where
  "example_row name cat sub ph =
     [''businessName'' \<mapsto> Some name, ''category'' \<mapsto> Some cat,
      ''subCategory'' \<mapsto> Some sub, ''phone'' \<mapsto> Some ph]"

definition example_rows :: "row list" where
  "example_rows =
     [example_row ''Acme'' ''Tutoring'' ''Math'' ''555-1212'',
      example_row ''Beta'' ''Tutoring+X'' ''Math'' '''',
      example_row ''Gamma'' ''Tutoring'' ''Bad'' '''']"

definition example_file :: csv_file where
  "example_file =
     \<lparr> fieldnames = Some [''businessName'', ''category'', ''subCategory'', ''phone''],
       rows = example_rows \<rparr>"

definition example_parser :: "(unit, unit) CSVParser" where
  "example_parser = init_parser\<lparr>categories := {''Tutoring''}, subcategories := {''Math''}\<rparr>"

definition example_deps :: "(unit, unit) deps" where
  "example_deps = spec_deps (\<lambda>enum. Map.empty) (\<lambda>c. Inr None) (join nl) {}"

definition example_fs :: filesystem where
  "example_fs =
     \<lparr> isfile = (\<lambda>p. p = ''a.csv''), isdir = (\<lambda>p. False), exists = (\<lambda>p. p = ''a.csv'' \<or> p = ''notes.txt''),
       listdir = (\<lambda>p. []),
       open_csv = (\<lambda>p. if p = ''a.csv'' then Inr example_file else Inl (FileNotFoundError p)) \<rparr>"

text \<open>Two files that parse, for the run over several files.\<close>

definition two_files_fs :: filesystem where
  "two_files_fs =
     \<lparr> isfile = (\<lambda>p. p = ''b.csv'' \<or> p = ''c.csv''), isdir = (\<lambda>p. False),
       exists = (\<lambda>p. p = ''b.csv'' \<or> p = ''c.csv''), listdir = (\<lambda>p. []),
       open_csv = (\<lambda>p.
         if p = ''b.csv''
         then Inr \<lparr> fieldnames = Some [''businessName'', ''category'', ''subCategory'', ''phone''],
                    rows = [example_row ''Acme'' ''Tutoring'' ''Math'' ''555-1212''] \<rparr>
         else if p = ''c.csv''
         then Inr \<lparr> fieldnames = Some [''businessName'', ''category'', ''subCategory'', ''phone''],
                    rows = [example_row ''Delta'' ''Tutoring+Tutoring'' ''Math'' [],
                            example_row ''Epsilon'' ''Tutoring'' ''Math'' ''555-3434''] \<rparr>
         else Inl (FileNotFoundError p)) \<rparr>"






section \<open>Auxiliary facts\<close>

lemma split_on_not_Nil: "split_on sep s \<noteq> []"
  by (induction s) (auto split: list.splits)

lemma join_split_on: "join [sep] (split_on sep s) = s"
proof (induction s)
  case Nil
  show ?case by simp
next
  case (Cons c cs)
  obtain p ps where ps: "split_on sep cs = p # ps"
    using split_on_not_Nil [of sep cs] by (cases "split_on sep cs") auto
  show ?case
  proof (cases "c = sep")
    case True
    with Cons ps show ?thesis by simp
  next
    case False
    with Cons ps show ?thesis by (cases ps) auto
  qed
qed

lemma split_on_token: "sep \<notin> set t \<Longrightarrow> split_on sep t = [t]"
  by (induction t) auto

lemma split_on_append: "sep \<notin> set t \<Longrightarrow> split_on sep (t @ sep # rest) = t # split_on sep rest"
  by (induction t) auto

lemma split_on_join:
  "ts \<noteq> [] \<Longrightarrow> \<forall>t\<in>set ts. sep \<notin> set t \<Longrightarrow> split_on sep (join [sep] ts) = ts"
proof (induction ts)
  case Nil
  then show ?case by simp
next
  case (Cons t ts)
  show ?case
  proof (cases ts)
    case Nil
    with Cons.prems show ?thesis by (simp add: split_on_token)
  next
    case (Cons q qs)
    with Cons.IH Cons.prems show ?thesis by (simp add: split_on_append)
  qed
qed

lemma check_cats_ok: "set parts \<subseteq> vocab \<Longrightarrow> check_cats vocab sub parts = Inr ()"
  by (induction parts) auto

lemma columns_loop_eq:
  "columns_loop D fp hdr (err, log) =
     (err \<or> (\<exists>f\<in>set hdr. f \<notin> attrs D \<and> f \<notin> allowed_fields D),
      log @ map (\<lambda>f. fp @ '': '' @ dq @ f @ dq @ '' is not a valid field'')
              (filter (\<lambda>f. f \<notin> attrs D \<and> f \<notin> allowed_fields D) hdr))"
  by (induction hdr arbitrary: err log) auto

lemma required_loop_eq:
  "required_loop r fs (err, log) =
     (err \<or> (\<exists>f\<in>set fs. r f = None),
      log @ map (\<lambda>f. dq @ f @ dq @ '' is a required row'') (filter (\<lambda>f. r f = None) fs))"
  by (induction fs arbitrary: err log) auto

lemma filter_empty_iff: "(filter P xs = []) = (\<not> (\<exists>x\<in>set xs. P x))"
  by (induction xs) auto

lemma bind_res_Inr: "(bind_res m f = Inr y) = (\<exists>x. m = Inr x \<and> f x = Inr y)"
  by (cases m) (auto simp: bind_res_def)

lemma businessName_setattr: "businessName (setattr res f v) = businessName res"
  by (simp add: setattr_def)

lemma apply_simple_fields_businessName:
  "apply_simple_fields D r fs res = Inr res' \<Longrightarrow> businessName res' = businessName res"
  by (induction fs arbitrary: res)
     (auto simp: businessName_setattr split: sum.splits if_splits)

lemma apply_opt_keeps:
  "apply_opt m g x = Inr y \<Longrightarrow> (\<And>v z. P (g v z) = P z) \<Longrightarrow> P y = P x"
  by (auto simp: apply_opt_def split: sum.splits option.splits)

lemma apply_list_keeps:
  "apply_list m g x = Inr y \<Longrightarrow> (\<And>v z. P (g v z) = P z) \<Longrightarrow> P y = P x"
  by (auto simp: apply_list_def split: sum.splits option.splits list.splits)

lemma apply_grade_businessName:
  "apply_grade D r x = Inr y \<Longrightarrow> businessName y = businessName x"
  unfolding apply_grade_def
  by (cases "r ''GRADELEVEL''") (auto dest!: apply_opt_keeps [where P = businessName])

lemma parse_fields_businessName:
  assumes "parse_fields D self r = Inr res"
  shows "r ''businessName'' = Some (businessName res)"
proof -
  from assms obtain name r1 cats subcats r2 r3 r4 r5 r6 r7 r8 where
    n: "getitem r ''businessName'' = Inr name"
    and s1: "apply_simple_fields D r simple_fields
               (new_resource\<lparr>businessName := name, id_attr := 0\<rparr>) = Inr r1"
    and s2: "apply_grade D r (r1\<lparr>category := Some cats, subCategory := Some subcats\<rparr>) = Inr r2"
    and s3: "apply_opt (validate_enum_field D State ''state'' r)
               (\<lambda>v x. x\<lparr>state := Some v\<rparr>) r2 = Inr r3"
    and s4: "apply_list (validate_list_enum_field D Interest ''careerInterest'' r)
               (\<lambda>v x. x\<lparr>careerInterest := Some v\<rparr>) r3 = Inr r4"
    and s5: "apply_opt (validate_enum_field D Cost ''cost'' r)
               (\<lambda>v x. x\<lparr>cost := Some v\<rparr>) r4 = Inr r5"
    and s6: "apply_list (validate_list_enum_field D InstructionType ''instruction'' r)
               (\<lambda>v x. x\<lparr>instruction := Some v\<rparr>) r5 = Inr r6"
    and s7: "apply_list (validate_list_enum_field D BoardingType ''boarding'' r)
               (\<lambda>v x. x\<lparr>boarding := Some v\<rparr>) r6 = Inr r7"
    and s8: "apply_opt (validate_enum_field D Gender ''gender'' r)
               (\<lambda>v x. x\<lparr>gender := Some v\<rparr>) r7 = Inr r8"
    and s9: "apply_list (validate_list_enum_field D LocationLimit ''locationLimit'' r)
               (\<lambda>v x. x\<lparr>locationLimit := Some v\<rparr>) r8 = Inr res"
    unfolding parse_fields_def bind_res_Inr by blast
  have "businessName r1 = name"
    using apply_simple_fields_businessName [OF s1] by simp
  moreover have "businessName r2 = businessName r1"
    using apply_grade_businessName [OF s2] by simp
  moreover have "businessName r3 = businessName r2"
    by (rule apply_opt_keeps [OF s3]) simp
  moreover have "businessName r4 = businessName r3"
    by (rule apply_list_keeps [OF s4]) simp
  moreover have "businessName r5 = businessName r4"
    by (rule apply_opt_keeps [OF s5]) simp
  moreover have "businessName r6 = businessName r5"
    by (rule apply_list_keeps [OF s6]) simp
  moreover have "businessName r7 = businessName r6"
    by (rule apply_list_keeps [OF s7]) simp
  moreover have "businessName r8 = businessName r7"
    by (rule apply_opt_keeps [OF s8]) simp
  moreover have "businessName res = businessName r8"
    by (rule apply_list_keeps [OF s9]) simp
  ultimately have "businessName res = name" by simp
  with n show ?thesis
    by (auto simp: getitem_def split: option.splits)
qed
lemma validate_required_fields_Inr:
  "fst (validate_required_fields D r self) = Inr u \<Longrightarrow> validate_required_fields D r self = (Inr (), self)"
  by (auto simp: validate_required_fields_def required_loop_eq Let_def filter_empty_iff
        split: if_splits)

lemma validate_required_fields_resources:
  "validate_required_fields D r (self\<lparr>resources := R\<rparr>) =
     (fst (validate_required_fields D r self),
      (snd (validate_required_fields D r self))\<lparr>resources := R\<rparr>)"
  by (simp add: validate_required_fields_def required_loop_eq Let_def)

lemma validate_category_field_resources:
  "validate_category_field (self\<lparr>resources := R\<rparr>) c sub = validate_category_field self c sub"
  by (cases c; cases sub) (simp_all add: validate_category_field_def)

lemma parse_fields_resources:
  "parse_fields D (self\<lparr>resources := R\<rparr>) r = parse_fields D self r"
  by (simp add: parse_fields_def validate_category_field_resources)

lemma parse_row_Inr_state:
  assumes "parse_row D r self = (Inr res, self')"
  shows "self' = self"
proof (cases "validate_required_fields D r self")
  case (Pair x s)
  show ?thesis
  proof (cases x)
    case (Inl e)
    with Pair assms show ?thesis by (simp add: parse_row_def)
  next
    case (Inr u)
    with Pair have "validate_required_fields D r self = (Inr (), self)"
      using validate_required_fields_Inr [of D r self u] by simp
    with assms show ?thesis by (simp add: parse_row_def)
  qed
qed

lemma parse_row_resources:
  "parse_row D r (self\<lparr>resources := R\<rparr>) =
     (fst (parse_row D r self), (snd (parse_row D r self))\<lparr>resources := R\<rparr>)"
proof (cases "validate_required_fields D r self")
  case (Pair x s)
  show ?thesis
  proof (cases x)
    case (Inl e)
    with Pair show ?thesis
      by (simp add: parse_row_def validate_required_fields_resources)
  next
    case (Inr u)
    with Pair show ?thesis
      by (simp add: parse_row_def validate_required_fields_resources parse_fields_resources)
  qed
qed



lemma parse_rows_success:
  "parse_rows D rs n self = (Inr m, self') \<Longrightarrow>
   \<exists>recs. length recs = length rs \<and> m = n + length rs
     \<and> (\<forall>R. parse_rows D rs n (self\<lparr>resources := R\<rparr>) = (Inr m, self\<lparr>resources := R @ recs\<rparr>))"
proof (induction rs arbitrary: n self)
  case Nil
  then show ?case by simp
next
  case (Cons r rs)
  obtain x s1 where pr: "parse_row D r self = (x, s1)" by (cases "parse_row D r self")
  with Cons.prems obtain res where x: "x = Inr res"
    by (cases x) auto
  with pr have s1: "s1 = self" using parse_row_Inr_state by blast
  from Cons.prems pr x s1
  have rest: "parse_rows D rs (n + 1) (self\<lparr>resources := resources self @ [res]\<rparr>) = (Inr m, self')"
    by simp
  from Cons.IH [OF rest] obtain recs where
    len: "length recs = length rs" and m: "m = n + 1 + length rs"
    and all: "\<forall>R. parse_rows D rs (n + 1) (self\<lparr>resources := resources self @ [res], resources := R\<rparr>)
                = (Inr m, self\<lparr>resources := resources self @ [res], resources := R @ recs\<rparr>)"
    by auto
  have "\<forall>R. parse_rows D (r # rs) n (self\<lparr>resources := R\<rparr>)
           = (Inr m, self\<lparr>resources := R @ (res # recs)\<rparr>)"
  proof
    fix R
    have "parse_row D r (self\<lparr>resources := R\<rparr>) = (Inr res, self\<lparr>resources := R\<rparr>)"
      using pr x s1 by (simp add: parse_row_resources)
    moreover have "parse_rows D rs (n + 1) (self\<lparr>resources := R @ [res]\<rparr>)
                     = (Inr m, self\<lparr>resources := (R @ [res]) @ recs\<rparr>)"
      using all [rule_format, of "R @ [res]"] by simp
    ultimately show "parse_rows D (r # rs) n (self\<lparr>resources := R\<rparr>)
           = (Inr m, self\<lparr>resources := R @ (res # recs)\<rparr>)"
      by simp
  qed
  with len m show ?case
    by (intro exI [of _ "res # recs"]) simp
qed

lemma check_cats_first_unknown:
  "set pre \<subseteq> vocab \<Longrightarrow> c \<notin> vocab \<Longrightarrow>
   check_cats vocab sub (pre @ c # post) =
     Inl (Exception (dq @ c @ dq @ '' is not a valid ''
            @ (if sub then ''sub'' else []) @ ''category''))"
  by (induction pre) auto

lemma validate_column_names_Inr:
  "fst (validate_column_names D fp h self) = Inr u \<Longrightarrow>
   validate_column_names D fp h self = (Inr (), self)"
  by (cases h)
     (auto simp: validate_column_names_def columns_loop_eq Let_def filter_empty_iff
        split: if_splits)

lemma validate_column_names_resources:
  "validate_column_names D fp h (self\<lparr>resources := R\<rparr>) =
     (fst (validate_column_names D fp h self),
      (snd (validate_column_names D fp h self))\<lparr>resources := R\<rparr>)"
  by (cases h) (simp_all add: validate_column_names_def columns_loop_eq Let_def)



lemma example_row1:
  "parse_row example_deps (example_row ''Acme'' ''Tutoring'' ''Math'' ''555-1212'') example_parser =
     (Inr (new_resource\<lparr>businessName := Some ''Acme'', phone := Some ''555-1212'',
             category := Some [''Tutoring''], subCategory := Some [''Math'']\<rparr>),
      example_parser)"
  by code_simp


lemma example_resources: "resources example_parser = []"
  by (simp add: example_parser_def init_parser_def)


lemma parse_csv_success:
  assumes "parse_csv D fs fp self = (Inr m, self')"
  shows "\<exists>recs. length recs = m
           \<and> (\<forall>R. parse_csv D fs fp (self\<lparr>resources := R\<rparr>) = (Inr m, self\<lparr>resources := R @ recs\<rparr>))"
proof -
  from assms obtain cf where f: "open_csv fs fp = Inr cf"
    by (cases "open_csv fs fp") (auto simp: parse_csv_def)
  obtain x s1 where v: "validate_column_names D fp (fieldnames cf) self = (x, s1)"
    by (cases "validate_column_names D fp (fieldnames cf) self")
  with assms f obtain u where "x = Inr u"
    by (cases x) (auto simp: parse_csv_def)
  with v have v': "validate_column_names D fp (fieldnames cf) self = (Inr (), self)"
    using validate_column_names_Inr [of D fp "fieldnames cf" self u] by simp
  with assms f have rs: "parse_rows D (rows cf) 0 self = (Inr m, self')"
    by (simp add: parse_csv_def)
  from parse_rows_success [OF rs] obtain recs where
    len: "length recs = length (rows cf)" and m: "m = length (rows cf)"
    and all: "\<forall>R. parse_rows D (rows cf) 0 (self\<lparr>resources := R\<rparr>)
                = (Inr m, self\<lparr>resources := R @ recs\<rparr>)"
    by auto
  have "\<forall>R. parse_csv D fs fp (self\<lparr>resources := R\<rparr>) = (Inr m, self\<lparr>resources := R @ recs\<rparr>)"
    using f v' all by (simp add: parse_csv_def validate_column_names_resources)
  with len m show ?thesis by auto
qed

lemma gather_all_succeed:
  assumes "\<forall>fp\<in>set order. fst (parse_csv D fs fp self) = Inr (count fp)"
  shows "\<exists>recs. length recs = sum_list (map count order)
           \<and> gather (map (\<lambda>fp. parse_csv D fs fp) order) (self\<lparr>resources := R\<rparr>)
               = (map (\<lambda>fp. Inr (count fp)) order, self\<lparr>resources := R @ recs\<rparr>)"
  using assms
proof (induction order arbitrary: R)
  case Nil
  then show ?case by simp
next
  case (Cons fp order)
  obtain s1 where "parse_csv D fs fp self = (Inr (count fp), s1)"
    using Cons.prems by (cases "parse_csv D fs fp self") auto
  from parse_csv_success [OF this] obtain recs1 where
    l1: "length recs1 = count fp"
    and p1: "\<forall>R. parse_csv D fs fp (self\<lparr>resources := R\<rparr>)
               = (Inr (count fp), self\<lparr>resources := R @ recs1\<rparr>)"
    by blast
  from Cons.prems have "\<forall>fp\<in>set order. fst (parse_csv D fs fp self) = Inr (count fp)"
    by simp
  from Cons.IH [OF this, of "R @ recs1"] obtain recs2 where
    l2: "length recs2 = sum_list (map count order)"
    and p2: "gather (map (\<lambda>fp. parse_csv D fs fp) order) (self\<lparr>resources := R @ recs1\<rparr>)
               = (map (\<lambda>fp. Inr (count fp)) order, self\<lparr>resources := (R @ recs1) @ recs2\<rparr>)"
    by blast
  have "gather (map (\<lambda>fp. parse_csv D fs fp) (fp # order)) (self\<lparr>resources := R\<rparr>)
          = (map (\<lambda>fp. Inr (count fp)) (fp # order), self\<lparr>resources := R @ (recs1 @ recs2)\<rparr>)"
    using p1 [rule_format, of R] p2 by simp
  with l1 l2 show ?case
    by (intro exI [of _ "recs1 @ recs2"]) simp
qed

lemma sum_results_all_Inr:
  "sum_results (map (\<lambda>x. Inr (count x)) xs) = Inr (sum_list (map count xs))"
  by (induction xs) auto











section \<open>The category validator: claims C1 and C8\<close>

text \<open>
  Claim C1, as the code has it. \<^verbatim>\<open>_validate_category_field\<close> splits the string on \<^verbatim>\<open>+\<close> and
  does not trim: when every part, exactly as split, is in the vocabulary (the subcategory
  set under the flag, the category set otherwise) it returns the parts as split; when
  \<open>c\<close> is the first part that is not in the vocabulary it raises the exception whose message
  names \<open>c\<close>, untrimmed.
\<close>

theorem category_validator_untrimmed:
  fixes self :: "('e, 'g) CSVParser"
  defines "vocab \<equiv> \<lambda>subcategory. if subcategory then subcategories self else categories self"
  shows "(set (split_on CHR ''+'' raw) \<subseteq> vocab subcategory \<longrightarrow>
            validate_category_field self (Some raw) subcategory = Inr (split_on CHR ''+'' raw))
         \<and> (split_on CHR ''+'' raw = pre @ c # post \<and> set pre \<subseteq> vocab subcategory
              \<and> c \<notin> vocab subcategory \<longrightarrow>
            validate_category_field self (Some raw) subcategory =
              Inl (Exception (dq @ c @ dq @ '' is not a valid ''
                     @ (if subcategory then ''sub'' else []) @ ''category'')))"
proof (intro conjI impI)
  assume "set (split_on CHR ''+'' raw) \<subseteq> vocab subcategory"
  then show "validate_category_field self (Some raw) subcategory = Inr (split_on CHR ''+'' raw)"
    by (simp add: validate_category_field_def vocab_def check_cats_ok)
next
  assume a: "split_on CHR ''+'' raw = pre @ c # post \<and> set pre \<subseteq> vocab subcategory
               \<and> c \<notin> vocab subcategory"
  then have "check_cats (vocab subcategory) subcategory (split_on CHR ''+'' raw) =
               Inl (Exception (dq @ c @ dq @ '' is not a valid ''
                      @ (if subcategory then ''sub'' else []) @ ''category''))"
    by (simp add: check_cats_first_unknown)
  then show "validate_category_field self (Some raw) subcategory =
               Inl (Exception (dq @ c @ dq @ '' is not a valid ''
                      @ (if subcategory then ''sub'' else []) @ ''category''))"
    by (simp add: validate_category_field_def vocab_def)
qed

theorem category_validator_untrimmed_witness:
  "validate_category_field
      ((init_parser :: (unit, unit) CSVParser)\<lparr>categories := {''Tutoring'', ''Mentoring''}\<rparr>)
      (Some ''Tutoring+Mentoring'') False = Inr [''Tutoring'', ''Mentoring'']
   \<and> validate_category_field
      ((init_parser :: (unit, unit) CSVParser)\<lparr>subcategories := {''Math''}\<rparr>)
      (Some ''Math+ Bad+Worse'') True
       = Inl (Exception (dq @ '' Bad'' @ dq @ '' is not a valid subcategory''))"
proof -
  let ?p = "(init_parser :: (unit, unit) CSVParser)\<lparr>categories := {''Tutoring'', ''Mentoring''}\<rparr>"
  let ?q = "(init_parser :: (unit, unit) CSVParser)\<lparr>subcategories := {''Math''}\<rparr>"
  have a: "set (split_on CHR ''+'' ''Tutoring+Mentoring'')
             \<subseteq> (if False then subcategories ?p else categories ?p)"
    by simp
  have b: "split_on CHR ''+'' ''Math+ Bad+Worse'' = [''Math''] @ '' Bad'' # [''Worse'']
             \<and> set [''Math''] \<subseteq> (if True then subcategories ?q else categories ?q)
             \<and> '' Bad'' \<notin> (if True then subcategories ?q else categories ?q)"
    by simp
  show ?thesis
    using category_validator_untrimmed [of "''Tutoring+Mentoring''" False ?p, THEN conjunct1, THEN mp, OF a]
      category_validator_untrimmed [of "''Math+ Bad+Worse''" True ?q "[''Math'']" "'' Bad''" "[''Worse'']",
        THEN conjunct2, THEN mp, OF b]
    by simp
qed

text \<open>
  Claim C1 as the specification words it fails on the code: with both trimmed parts of
  \<^verbatim>\<open>"Tutoring + Mentoring"\<close> in the vocabulary, the validator of the specification returns
  the two trimmed names, and \<^verbatim>\<open>_validate_category_field\<close> raises for the part
  \<^verbatim>\<open>"Tutoring "\<close>, which still has its blank.
\<close>

theorem category_validator_trim_counterexample:
  "spec_category_validator {''Tutoring'', ''Mentoring''} False ''Tutoring + Mentoring''
     = Inr [''Tutoring'', ''Mentoring'']
   \<and> validate_category_field
       ((init_parser :: (unit, unit) CSVParser)\<lparr>categories := {''Tutoring'', ''Mentoring''}\<rparr>)
       (Some ''Tutoring + Mentoring'') False
     = Inl (Exception (dq @ ''Tutoring '' @ dq @ '' is not a valid category''))"
  by (simp add: spec_category_validator_def validate_category_field_def init_parser_def
        strip_def is_space_def)

text \<open>
  Claim C8. A value made by joining the tokens \<open>ts\<close> with \<^verbatim>\<open>+\<close>, all of them in the
  vocabulary, is returned as exactly the list \<open>ts\<close>: same order, duplicates kept. And
  whatever the validator returns for a string, joining it with \<^verbatim>\<open>+\<close> gives the string back.
\<close>

theorem category_order_preserved:
  "(ts \<noteq> [] \<and> (\<forall>t\<in>set ts. CHR ''+'' \<notin> set t)
      \<and> set ts \<subseteq> (if subcategory then subcategories self else categories self)
      \<longrightarrow> validate_category_field self (Some (join ''+'' ts)) subcategory = Inr ts)
   \<and> (validate_category_field self (Some raw) subcategory = Inr parts
      \<longrightarrow> join ''+'' parts = raw)"
proof (intro conjI impI)
  assume "ts \<noteq> [] \<and> (\<forall>t\<in>set ts. CHR ''+'' \<notin> set t)
      \<and> set ts \<subseteq> (if subcategory then subcategories self else categories self)"
  then show "validate_category_field self (Some (join ''+'' ts)) subcategory = Inr ts"
    by (simp add: validate_category_field_def split_on_join check_cats_ok)
next
  assume "validate_category_field self (Some raw) subcategory = Inr parts"
  then have "parts = split_on CHR ''+'' raw"
    by (auto simp: validate_category_field_def Let_def split: sum.splits)
  then show "join ''+'' parts = raw"
    by (simp add: join_split_on)
qed

theorem category_order_preserved_witness:
  "validate_category_field
      ((init_parser :: (unit, unit) CSVParser)\<lparr>categories := {''Art'', ''Music''}\<rparr>)
      (Some ''Music+Art+Music'') False = Inr [''Music'', ''Art'', ''Music'']
   \<and> join ''+'' [''Music'', ''Art'', ''Music''] = ''Music+Art+Music''"
proof -
  let ?p = "(init_parser :: (unit, unit) CSVParser)\<lparr>categories := {''Art'', ''Music''}\<rparr>"
  have a: "[''Music'', ''Art'', ''Music''] \<noteq> []
      \<and> (\<forall>t\<in>set [''Music'', ''Art'', ''Music'']. CHR ''+'' \<notin> set t)
      \<and> set [''Music'', ''Art'', ''Music''] \<subseteq> (if False then subcategories ?p else categories ?p)"
    by simp
  have b: "validate_category_field ?p (Some (join ''+'' [''Music'', ''Art'', ''Music''])) False
             = Inr [''Music'', ''Art'', ''Music'']"
    using category_order_preserved [of "[''Music'', ''Art'', ''Music'']" False ?p,
        THEN conjunct1, THEN mp, OF a] .
  have c: "join ''+'' [''Music'', ''Art'', ''Music''] = ''Music+Art+Music''"
    by simp
  from b c show ?thesis by simp
qed

section \<open>Header and required-field checks: claims C4, C5 and C10\<close>

text \<open>
  Claim C5. \<^verbatim>\<open>_validate_column_names\<close> raises exactly when some header field is neither an
  attribute of the record nor an allowed extra field. Raising or not, it has gone through
  the whole header: the log has grown by one message for each offending field, in header
  order, and the exception carries the log. A header of attribute names and allowed names
  only raises nothing and leaves the session as it was.
\<close>

theorem validate_column_names_scans_header:
  "((\<exists>e. fst (validate_column_names D fp (Some hdr) self) = Inl e)
      \<longleftrightarrow> (\<exists>f\<in>set hdr. f \<notin> attrs D \<and> f \<notin> allowed_fields D))
   \<and> err_log (snd (validate_column_names D fp (Some hdr) self))
       = err_log self @ map (\<lambda>f. fp @ '': '' @ dq @ f @ dq @ '' is not a valid field'')
                          (filter (\<lambda>f. f \<notin> attrs D \<and> f \<notin> allowed_fields D) hdr)
   \<and> ((\<exists>f\<in>set hdr. f \<notin> attrs D \<and> f \<notin> allowed_fields D)
        \<longrightarrow> fst (validate_column_names D fp (Some hdr) self) =
              Inl (Exception (''Unable to parse '' @ fp @ '' due to invalid fields:'' @ nl
                     @ bulleted_list D
                         (err_log (snd (validate_column_names D fp (Some hdr) self))))))
   \<and> (set hdr \<subseteq> attrs D \<union> allowed_fields D
        \<longrightarrow> validate_column_names D fp (Some hdr) self = (Inr (), self))"
  by (auto simp add: validate_column_names_def columns_loop_eq filter_empty_iff Let_def)

theorem validate_column_names_scans_header_witness:
  "(\<exists>e. fst (validate_column_names
              (spec_deps (\<lambda>enum. Map.empty) (\<lambda>c. Inr None) (join nl) {''GRADELEVEL''})
              ''a.csv'' (Some [''businessName'', ''bogus'', ''GRADELEVEL'', ''extra''])
              example_parser) = Inl e)
   \<and> err_log (snd (validate_column_names
              (spec_deps (\<lambda>enum. Map.empty) (\<lambda>c. Inr None) (join nl) {''GRADELEVEL''})
              ''a.csv'' (Some [''businessName'', ''bogus'', ''GRADELEVEL'', ''extra''])
              example_parser))
       = [''a.csv: '' @ dq @ ''bogus'' @ dq @ '' is not a valid field'',
          ''a.csv: '' @ dq @ ''extra'' @ dq @ '' is not a valid field'']
   \<and> validate_column_names
         (spec_deps (\<lambda>enum. Map.empty) (\<lambda>c. Inr None) (join nl) {''GRADELEVEL''})
         ''a.csv'' (Some [''businessName'', ''GRADELEVEL'']) example_parser
       = (Inr (), example_parser)"
proof -
  let ?D = "spec_deps (\<lambda>enum. Map.empty) (\<lambda>c. Inr None) (join nl) {''GRADELEVEL''}
              :: (unit, unit) deps"
  let ?bad = "[''businessName'', ''bogus'', ''GRADELEVEL'', ''extra'']"
  let ?good = "[''businessName'', ''GRADELEVEL'']"
  have a: "\<exists>f\<in>set ?bad. f \<notin> attrs ?D \<and> f \<notin> allowed_fields ?D"
    by (simp add: spec_deps_def spec_attrs_def)
  have b: "set ?good \<subseteq> attrs ?D \<union> allowed_fields ?D"
    by (simp add: spec_deps_def spec_attrs_def)
  have c: "filter (\<lambda>f. f \<notin> attrs ?D \<and> f \<notin> allowed_fields ?D) ?bad = [''bogus'', ''extra'']"
    by (simp add: spec_deps_def spec_attrs_def)
  have d: "err_log example_parser = []"
    by (simp add: example_parser_def init_parser_def)
  note t = validate_column_names_scans_header [of ?D "''a.csv''" ?bad example_parser]
  note u = validate_column_names_scans_header [of ?D "''a.csv''" ?good example_parser]
  from t a have 1: "\<exists>e. fst (validate_column_names ?D ''a.csv'' (Some ?bad) example_parser) = Inl e"
    by blast
  from t have 2: "err_log (snd (validate_column_names ?D ''a.csv'' (Some ?bad) example_parser))
       = err_log example_parser @ map (\<lambda>f. ''a.csv'' @ '': '' @ dq @ f @ dq @ '' is not a valid field'')
           (filter (\<lambda>f. f \<notin> attrs ?D \<and> f \<notin> allowed_fields ?D) ?bad)"
    by blast
  from u b have 3: "validate_column_names ?D ''a.csv'' (Some ?good) example_parser
       = (Inr (), example_parser)"
    by blast
  from 1 2 3 show ?thesis
    unfolding c d by simp
qed

text \<open>
  Claim C4. \<^verbatim>\<open>_validate_required_fields\<close> raises exactly when one of the keys
  \<^verbatim>\<open>businessName\<close>, \<^verbatim>\<open>category\<close>, \<^verbatim>\<open>subCategory\<close> is not in the row. It looks at all three
  before it raises: the log grows by one message for each missing key, and the exception
  carries the log. \<^verbatim>\<open>_parse_row\<close> makes this check before anything else, so with a key
  missing it raises that exception, and with the three keys present the check raises
  nothing and changes nothing.
\<close>

theorem required_fields_all_listed:
  "((\<exists>e. fst (validate_required_fields D r self) = Inl e)
      \<longleftrightarrow> (r ''businessName'' = None \<or> r ''category'' = None \<or> r ''subCategory'' = None))
   \<and> err_log (snd (validate_required_fields D r self))
       = err_log self @ map (\<lambda>f. dq @ f @ dq @ '' is a required row'')
           (filter (\<lambda>f. r f = None) [''businessName'', ''category'', ''subCategory''])
   \<and> (r ''businessName'' = None \<or> r ''category'' = None \<or> r ''subCategory'' = None
        \<longrightarrow> parse_row D r self =
              (Inl (Exception (''At least 1 required field was not found in one of the rows:''
                      @ nl @ bulleted_list D
                         (err_log (snd (validate_required_fields D r self))))),
               snd (validate_required_fields D r self)))
   \<and> (r ''businessName'' \<noteq> None \<and> r ''category'' \<noteq> None \<and> r ''subCategory'' \<noteq> None
        \<longrightarrow> validate_required_fields D r self = (Inr (), self)
            \<and> parse_row D r self = (parse_fields D self r, self))"
  by (auto simp add: validate_required_fields_def required_loop_eq required_fields_def
        parse_row_def Let_def)

theorem required_fields_all_listed_witness:
  "parse_row example_deps [''category'' \<mapsto> Some ''Tutoring''] example_parser =
     (Inl (Exception (''At least 1 required field was not found in one of the rows:'' @ nl
             @ dq @ ''businessName'' @ dq @ '' is a required row'' @ nl
             @ dq @ ''subCategory'' @ dq @ '' is a required row'')),
      example_parser\<lparr>err_log := [dq @ ''businessName'' @ dq @ '' is a required row'',
                                  dq @ ''subCategory'' @ dq @ '' is a required row'']\<rparr>)
   \<and> validate_required_fields example_deps
        (example_row ''Acme'' ''Tutoring'' ''Math'' ''555-1212'') example_parser
       = (Inr (), example_parser)"
proof -
  let ?r = "[''category'' \<mapsto> Some ''Tutoring''] :: row"
  let ?ok = "example_row ''Acme'' ''Tutoring'' ''Math'' ''555-1212''"
  have a: "?r ''businessName'' = None \<or> ?r ''category'' = None \<or> ?r ''subCategory'' = None"
    by simp
  have b: "?ok ''businessName'' \<noteq> None \<and> ?ok ''category'' \<noteq> None \<and> ?ok ''subCategory'' \<noteq> None"
    by (simp add: example_row_def)
  have c: "filter (\<lambda>f. ?r f = None) [''businessName'', ''category'', ''subCategory'']
             = [''businessName'', ''subCategory'']"
    by simp
  have d: "err_log example_parser = []"
    by (simp add: example_parser_def init_parser_def)
  have bl: "bulleted_list example_deps = join nl"
    by (simp add: example_deps_def spec_deps_def)
  note t = required_fields_all_listed [of example_deps ?r example_parser]
  note u = required_fields_all_listed [of example_deps ?ok example_parser]
  from t have 1: "err_log (snd (validate_required_fields example_deps ?r example_parser))
       = err_log example_parser @ map (\<lambda>f. dq @ f @ dq @ '' is a required row'')
           (filter (\<lambda>f. ?r f = None) [''businessName'', ''category'', ''subCategory''])"
    by blast
  from t a have 2: "parse_row example_deps ?r example_parser =
              (Inl (Exception (''At least 1 required field was not found in one of the rows:''
                      @ nl @ bulleted_list example_deps
                         (err_log (snd (validate_required_fields example_deps ?r example_parser))))),
               snd (validate_required_fields example_deps ?r example_parser))"
    by blast
  from u b have 3: "validate_required_fields example_deps ?ok example_parser = (Inr (), example_parser)"
    by blast
  have 4: "snd (validate_required_fields example_deps ?r example_parser)
       = example_parser\<lparr>err_log := [dq @ ''businessName'' @ dq @ '' is a required row'',
                                  dq @ ''subCategory'' @ dq @ '' is a required row'']\<rparr>"
    by (simp add: validate_required_fields_def required_fields_def Let_def d)
  from 2 3 show ?thesis
    unfolding 4 by (simp add: bl)
qed

text \<open>
  Claim C10. The message of the exception of \<^verbatim>\<open>_validate_column_names\<close> and the one of
  \<^verbatim>\<open>_validate_required_fields\<close> are made from \<^verbatim>\<open>bulleted_list(self.err_log)\<close>, the whole log
  of the session: everything that was in the log before the call, followed by the messages
  of this header or of this row.
\<close>

theorem error_messages_use_whole_log:
  "(fst (validate_column_names D fp (Some hdr) self) = Inl e \<longrightarrow>
      e = Exception (''Unable to parse '' @ fp @ '' due to invalid fields:'' @ nl
            @ bulleted_list D
               (err_log self @ map (\<lambda>f. fp @ '': '' @ dq @ f @ dq @ '' is not a valid field'')
                  (filter (\<lambda>f. f \<notin> attrs D \<and> f \<notin> allowed_fields D) hdr))))
   \<and> (fst (validate_required_fields D r self) = Inl e' \<longrightarrow>
      e' = Exception (''At least 1 required field was not found in one of the rows:'' @ nl
            @ bulleted_list D
               (err_log self @ map (\<lambda>f. dq @ f @ dq @ '' is a required row'')
                  (filter (\<lambda>f. r f = None) required_fields))))"
  by (auto simp add: validate_column_names_def columns_loop_eq validate_required_fields_def
        required_loop_eq Let_def split: if_splits)

theorem error_messages_use_whole_log_witness:
  "fst (validate_column_names example_deps ''b.csv'' (Some [''bogus''])
          (example_parser\<lparr>err_log := [''Path '' @ dq @ ''x'' @ dq @ '' does not exist'']\<rparr>))
     = Inl (Exception (''Unable to parse b.csv due to invalid fields:'' @ nl
              @ ''Path '' @ dq @ ''x'' @ dq @ '' does not exist'' @ nl
              @ ''b.csv: '' @ dq @ ''bogus'' @ dq @ '' is not a valid field''))
   \<and> fst (validate_required_fields example_deps [''category'' \<mapsto> Some ''Tutoring'', ''subCategory'' \<mapsto> Some ''Math'']
          (example_parser\<lparr>err_log := [''a.csv: '' @ dq @ ''bogus'' @ dq @ '' is not a valid field'']\<rparr>))
     = Inl (Exception (''At least 1 required field was not found in one of the rows:'' @ nl
              @ ''a.csv: '' @ dq @ ''bogus'' @ dq @ '' is not a valid field'' @ nl
              @ dq @ ''businessName'' @ dq @ '' is a required row''))"
proof -
  let ?s = "example_parser\<lparr>err_log := [''Path '' @ dq @ ''x'' @ dq @ '' does not exist'']\<rparr>"
  let ?t = "example_parser\<lparr>err_log := [''a.csv: '' @ dq @ ''bogus'' @ dq @ '' is not a valid field'']\<rparr>"
  let ?r = "[''category'' \<mapsto> Some ''Tutoring'', ''subCategory'' \<mapsto> Some ''Math''] :: row"
  let ?e = "Exception (''Unable to parse b.csv due to invalid fields:'' @ nl
              @ ''Path '' @ dq @ ''x'' @ dq @ '' does not exist'' @ nl
              @ ''b.csv: '' @ dq @ ''bogus'' @ dq @ '' is not a valid field'')"
  let ?e' = "Exception (''At least 1 required field was not found in one of the rows:'' @ nl
              @ ''a.csv: '' @ dq @ ''bogus'' @ dq @ '' is not a valid field'' @ nl
              @ dq @ ''businessName'' @ dq @ '' is a required row'')"
  have bl: "bulleted_list example_deps = join nl"
    and at: "attrs example_deps = spec_attrs" and al: "allowed_fields example_deps = {}"
    by (simp_all add: example_deps_def spec_deps_def)
  have a: "fst (validate_column_names example_deps ''b.csv'' (Some [''bogus'']) ?s) = Inl ?e"
    by (simp add: validate_column_names_def Let_def bl at al spec_attrs_def)
  have b: "fst (validate_required_fields example_deps ?r ?t) = Inl ?e'"
    by (simp add: validate_required_fields_def required_fields_def Let_def bl)
  from a b show ?thesis
    using error_messages_use_whole_log [of example_deps "''b.csv''" "[''bogus'']" ?s ?e]
      error_messages_use_whole_log [of example_deps _ _ ?t _ ?r ?e']
    by simp
qed

section \<open>The row normalizer: claim C3\<close>

text \<open>
  Claim C3, as the code has it. \<^verbatim>\<open>_parse_row\<close> checks that the key \<^verbatim>\<open>businessName\<close> is in
  the row and copies the cell: for every accepted row the \<^verbatim>\<open>businessName\<close> of the record is
  the cell the row has under that key, whatever it is, and the session is left as it was.
  Nothing checks that the cell is a string with something in it.
\<close>

theorem businessName_is_row_cell:
  "parse_row D r self = (Inr res, self') \<longrightarrow>
     r ''businessName'' = Some (businessName res) \<and> self' = self"
proof
  assume a: "parse_row D r self = (Inr res, self')"
  then have s: "self' = self" by (rule parse_row_Inr_state)
  with a have a': "parse_row D r self = (Inr res, self)" by simp
  obtain x s1 where v: "validate_required_fields D r self = (x, s1)"
    by (cases "validate_required_fields D r self")
  with a' obtain u where x: "x = Inr u" by (cases x) (auto simp: parse_row_def)
  with v have "validate_required_fields D r self = (Inr (), self)"
    using validate_required_fields_Inr [of D r self u] by simp
  with a' have "parse_fields D self r = Inr res"
    by (simp add: parse_row_def)
  then have "r ''businessName'' = Some (businessName res)"
    by (rule parse_fields_businessName)
  with s show "r ''businessName'' = Some (businessName res) \<and> self' = self" by simp
qed

theorem businessName_is_row_cell_witness:
  "example_row ''Acme'' ''Tutoring'' ''Math'' ''555-1212'' ''businessName'' = Some (Some ''Acme'')"
proof -
  let ?res = "new_resource\<lparr>businessName := Some ''Acme'', phone := Some ''555-1212'',
             category := Some [''Tutoring''], subCategory := Some [''Math'']\<rparr> :: (unit, unit) ResourceDto"
  have "example_row ''Acme'' ''Tutoring'' ''Math'' ''555-1212'' ''businessName''
          = Some (businessName ?res) \<and> example_parser = example_parser"
    using businessName_is_row_cell [of example_deps "example_row ''Acme'' ''Tutoring'' ''Math'' ''555-1212''"
        example_parser ?res example_parser, THEN mp, OF example_row1] .
  then show ?thesis by simp
qed

text \<open>
  Claim C3 as the specification words it fails on the code: a row whose \<^verbatim>\<open>businessName\<close>
  column is present but empty is accepted and gives a record with the empty string as
  \<^verbatim>\<open>businessName\<close>; a short row, for which \<^verbatim>\<open>csv.DictReader\<close> fills the column with
  \<^verbatim>\<open>None\<close>, is accepted and gives a record whose \<^verbatim>\<open>businessName\<close> is \<^verbatim>\<open>None\<close>. The helpers
  are the ones of the specification.
\<close>

theorem businessName_empty_counterexample:
  "parse_row example_deps (example_row [] ''Tutoring'' ''Math'' []) example_parser
     = (Inr (new_resource\<lparr>businessName := Some [], category := Some [''Tutoring''],
               subCategory := Some [''Math'']\<rparr>), example_parser)
   \<and> parse_row example_deps
        [''category'' \<mapsto> Some ''Tutoring'', ''subCategory'' \<mapsto> Some ''Math'',
         ''businessName'' \<mapsto> None] example_parser
     = (Inr (new_resource\<lparr>businessName := None, category := Some [''Tutoring''],
               subCategory := Some [''Math'']\<rparr>), example_parser)"
  by code_simp


section \<open>Parsing a file: claim C2\<close>



section \<open>The run over several files: claim C6\<close>

text \<open>
  Claim C6. Let every file of the session parse without error when parsed on its own,
  \<open>count fp\<close> being the number of rows \<^verbatim>\<open>_parse_csv\<close> returns for it. Then, in whatever order
  the tasks run, \<^verbatim>\<open>_parse_all\<close> returns the sum of the counts over the files of the session,
  and the session it leaves is the one it started from with exactly that many records
  added to the collection.
\<close>

theorem parse_all_sum_of_counts:
  "distinct order \<and> set order = files self
     \<and> (\<forall>fp\<in>files self. fst (parse_csv D fs fp self) = Inr (count fp))
   \<longrightarrow> fst (parse_all D fs order self) = Inr (\<Sum>fp\<in>files self. count fp)
       \<and> (\<exists>recs. length recs = (\<Sum>fp\<in>files self. count fp)
             \<and> snd (parse_all D fs order self) = self\<lparr>resources := resources self @ recs\<rparr>)"
proof
  assume h: "distinct order \<and> set order = files self
     \<and> (\<forall>fp\<in>files self. fst (parse_csv D fs fp self) = Inr (count fp))"
  then have "\<forall>fp\<in>set order. fst (parse_csv D fs fp self) = Inr (count fp)"
    by simp
  from gather_all_succeed [OF this, of "resources self"] obtain recs where
    len: "length recs = sum_list (map count order)"
    and g: "gather (map (\<lambda>fp. parse_csv D fs fp) order) self
              = (map (\<lambda>fp. Inr (count fp)) order, self\<lparr>resources := resources self @ recs\<rparr>)"
    by auto
  from h have total: "sum_list (map count order) = (\<Sum>fp\<in>files self. count fp)"
    using sum_list_distinct_conv_sum_set [of order count] by simp
  from g have "parse_all D fs order self
      = (Inr (sum_list (map count order)), self\<lparr>resources := resources self @ recs\<rparr>)"
    by (simp add: parse_all_def sum_results_all_Inr)
  with len total
  show "fst (parse_all D fs order self) = Inr (\<Sum>fp\<in>files self. count fp)
       \<and> (\<exists>recs. length recs = (\<Sum>fp\<in>files self. count fp)
             \<and> snd (parse_all D fs order self) = self\<lparr>resources := resources self @ recs\<rparr>)"
    by auto
qed


theorem parse_all_sum_of_counts_witness:
  "fst (parse_all example_deps two_files_fs [''b.csv'', ''c.csv'']
          (example_parser\<lparr>files := {''b.csv'', ''c.csv''}\<rparr>)) = Inr 3
   \<and> fst (parse_all example_deps two_files_fs [''c.csv'', ''b.csv'']
          (example_parser\<lparr>files := {''b.csv'', ''c.csv''}\<rparr>)) = Inr 3
   \<and> length (resources (snd (parse_all example_deps two_files_fs [''c.csv'', ''b.csv'']
          (example_parser\<lparr>files := {''b.csv'', ''c.csv''}\<rparr>)))) = 3"
proof -
  let ?P = "example_parser\<lparr>files := {''b.csv'', ''c.csv''}\<rparr>"
  let ?count = "\<lambda>p. if p = ''b.csv'' then 1 else (2::nat)"
  have b: "fst (parse_csv example_deps two_files_fs ''b.csv'' ?P) = Inr 1"
    by code_simp
  have c: "fst (parse_csv example_deps two_files_fs ''c.csv'' ?P) = Inr 2"
    by code_simp
  have total: "(\<Sum>fp\<in>files ?P. ?count fp) = 3"
    by simp
  have res: "resources ?P = []"
    by (simp add: example_resources)
  have h1: "distinct [''b.csv'', ''c.csv''] \<and> set [''b.csv'', ''c.csv''] = files ?P
     \<and> (\<forall>fp\<in>files ?P. fst (parse_csv example_deps two_files_fs fp ?P) = Inr (?count fp))"
    using b c by auto
  have h2: "distinct [''c.csv'', ''b.csv''] \<and> set [''c.csv'', ''b.csv''] = files ?P
     \<and> (\<forall>fp\<in>files ?P. fst (parse_csv example_deps two_files_fs fp ?P) = Inr (?count fp))"
    using b c by auto
  note t1 = parse_all_sum_of_counts [of "[''b.csv'', ''c.csv'']" ?P example_deps two_files_fs ?count,
      THEN mp, OF h1]
  note t2 = parse_all_sum_of_counts [of "[''c.csv'', ''b.csv'']" ?P example_deps two_files_fs ?count,
      THEN mp, OF h2]
  from t1 have 1: "fst (parse_all example_deps two_files_fs [''b.csv'', ''c.csv''] ?P) = Inr 3"
    unfolding total by blast
  from t2 have 2: "fst (parse_all example_deps two_files_fs [''c.csv'', ''b.csv''] ?P) = Inr 3"
    unfolding total by blast
  from t2 obtain recs where "length recs = 3"
    and "snd (parse_all example_deps two_files_fs [''c.csv'', ''b.csv''] ?P)
           = ?P\<lparr>resources := resources ?P @ recs\<rparr>"
    unfolding total by blast
  then have 3: "length (resources (snd (parse_all example_deps two_files_fs [''c.csv'', ''b.csv''] ?P))) = 3"
    by (simp add: res)
  from 1 2 3 show ?thesis by blast
qed

section \<open>The uploader: claim C7\<close>




section \<open>File discovery: claim C9\<close>

text \<open>
  Claim C9. A path that exists and is neither a directory nor a regular file whose name ends
  in \<^verbatim>\<open>.csv\<close> makes \<^verbatim>\<open>_process_fp\<close> return 0 with the session untouched: the file set and
  the log are what they were. This holds for every positive bound on the recursion, so the
  call does return. Given as an argument of the command line, such a path is passed over
  as if it were not there, and alone it makes \<^verbatim>\<open>_process_args\<close> end without raising.
\<close>

theorem process_fp_ignores_other_paths:
  "exists fs fp \<and> \<not> isdir fs fp \<and> \<not> (endswith fp ''.csv'' \<and> isfile fs fp) \<longrightarrow>
     process_fp (Suc depth) fs fp self = Some (0, self)
     \<and> (\<not> startswith fp ''-'' \<longrightarrow>
          args_loop (Suc depth) fs (fp # args) n_failed self
            = args_loop (Suc depth) fs args n_failed self
          \<and> process_args (Suc depth) D fs [prog, fp] self = Some (Inr (), self))"
  by (simp add: process_args_def)

theorem process_fp_ignores_other_paths_witness:
  "process_fp (Suc 0) example_fs ''notes.txt'' example_parser = Some (0, example_parser)
   \<and> args_loop (Suc 0) example_fs [''notes.txt'', ''a.csv''] 0 example_parser
       = args_loop (Suc 0) example_fs [''a.csv''] 0 example_parser
   \<and> process_args (Suc 0) example_deps example_fs [''main.py'', ''notes.txt''] example_parser
       = Some (Inr (), example_parser)"
proof -
  have h: "exists example_fs ''notes.txt'' \<and> \<not> isdir example_fs ''notes.txt''
             \<and> \<not> (endswith ''notes.txt'' ''.csv'' \<and> isfile example_fs ''notes.txt'')"
    by (simp add: example_fs_def)
  have s: "\<not> startswith ''notes.txt'' ''-''"
    by (simp add: startswith_def)
  note t = process_fp_ignores_other_paths [of example_fs "''notes.txt''" 0 example_parser
      "[''a.csv'']" 0 example_deps "''main.py''", THEN mp, OF h]
  from t s show ?thesis by blast
qed

end
